theory Spec2Isabelle
  imports Complex_Main "HOL-Library.Multiset"
begin

section \<open>AI Castle: the tick-resolution engine of \<open>engine.ts\<close>\<close>

text \<open>
  The development embeds the class \<open>GameEngine\<close> of \<open>src/engine.ts\<close> with the
  interfaces of \<open>src/types.ts\<close>. A JavaScript \<open>number\<close> is modelled as an exact real
  number: the engine only adds, subtracts, multiplies by constants, halves and rounds, and
  a double computes these exactly while the values are integers below \<open>2^53\<close>. The
  admission check \<open>Number.isInteger\<close> is therefore a real test in the model, and the
  integrality of the state is a proved invariant, not an assumption of the types.
  The logger is not part of the state; of what the engine logs, the model keeps the
  applied-actions list and the error lines of rejected actions.
\<close>

subsection \<open>Data model (\<open>types.ts\<close>)\<close>

type_synonym number = real

definition isInteger :: "number \<Rightarrow> bool" where
  "isInteger x = (of_int \<lfloor>x\<rfloor> = x)"

record JobCounts =
  miners :: number
  farmers :: number
  lumberjacks :: number
  builders :: number

text \<open>
  The optional fields of \<open>UpgradeState\<close> are options. \<open>None\<close> stands for a field that
  is \<open>undefined\<close> (or the \<open>NaN\<close> that arithmetic on \<open>undefined\<close> gives): adding to it
  leaves it so, and every comparison with it is false.
\<close>

record UpgradeState =
  active :: bool
  target :: "number option"
  progress :: "number option"
  woodRequired :: "number option"

record GameState =
  turn :: number
  gold :: number
  food :: number
  wood :: number
  workers :: number
  castleLevel :: number
  jobs :: JobCounts
  upgradeInProgress :: UpgradeState

text \<open>
  An \<open>Action\<close> carries a \<open>type\<close> tag and the \<open>params\<close> object that the engine casts
  according to the tag. The pair is one value of the tagged union \<open>ActionKind\<close>;
  \<open>AssignJobsParams\<close> has the fields of \<open>JobCounts\<close>, \<open>HireParams\<close> and
  \<open>FireParams\<close> hold \<open>count\<close> (written \<open>cnt\<close> below), \<open>BuyFoodParams\<close> holds \<open>amount\<close>. \<open>Unknown t\<close>
  is a tag outside \<open>ActionType\<close>, which the \<open>default\<close> branch of
  \<open>validateActionParams\<close> exists for.
\<close>

datatype ActionKind =
    AssignJobs JobCounts
  | Hire number
  | Fire number
  | BuyFood number
  | StartUpgrade
  | Unknown string

record Action =
  kind :: ActionKind
  requestedBy :: "string option"
  commandId :: "string option"

record QueuedAction = Action +
  queuedAtTurn :: number

text \<open>
  Error texts are template literals. A message is the sequence of its literal chunks and
  interpolated numbers, so that no number formatting has to be modelled.
\<close>

datatype piece = Str string | Num number

type_synonym message = "piece list"

datatype ValidationResult = ValidationSuccess | ValidationError message

record ActionResult =
  queued :: bool
  applyAtTurn :: "number option"
  error :: "message option"

record AppliedActionLog =
  applied_kind :: ActionKind
  requested_by :: "string option"
  command_id :: "string option"

record GameEngine =
  state :: GameState
  actionQueue :: "QueuedAction list"

subsection \<open>Construction of the engine\<close>

text \<open>
  \<open>Partial<GameState>\<close>: every field may be absent. The constructor spreads the
  override over the defaults, field by field (a shallow spread: an overriding \<open>jobs\<close>
  replaces the whole object).
\<close>

record PartialGameState =
  turn_opt :: "number option"
  gold_opt :: "number option"
  food_opt :: "number option"
  wood_opt :: "number option"
  workers_opt :: "number option"
  castleLevel_opt :: "number option"
  jobs_opt :: "JobCounts option"
  upgradeInProgress_opt :: "UpgradeState option"

definition inactiveUpgrade :: UpgradeState where
  "inactiveUpgrade = \<lparr>active = False, target = None, progress = None, woodRequired = None\<rparr>"

definition defaultState :: GameState where
  "defaultState =
     \<lparr>turn = 0, gold = 25, food = 18, wood = 0, workers = 5, castleLevel = 0,
      jobs = \<lparr>miners = 2, farmers = 1, lumberjacks = 1, builders = 0\<rparr>,
      upgradeInProgress = inactiveUpgrade\<rparr>"

definition orElse :: "'a option \<Rightarrow> 'a \<Rightarrow> 'a" where
  "orElse x d = (case x of Some v \<Rightarrow> v | None \<Rightarrow> d)"

definition spread :: "GameState \<Rightarrow> PartialGameState \<Rightarrow> GameState" where
  "spread d p =
     \<lparr>turn = orElse (turn_opt p) (turn d),
      gold = orElse (gold_opt p) (gold d),
      food = orElse (food_opt p) (food d),
      wood = orElse (wood_opt p) (wood d),
      workers = orElse (workers_opt p) (workers d),
      castleLevel = orElse (castleLevel_opt p) (castleLevel d),
      jobs = orElse (jobs_opt p) (jobs d),
      upgradeInProgress = orElse (upgradeInProgress_opt p) (upgradeInProgress d)\<rparr>"

definition newGameEngine :: "PartialGameState option \<Rightarrow> GameEngine" where
  "newGameEngine initialState =
     \<lparr>state = (case initialState of None \<Rightarrow> defaultState | Some p \<Rightarrow> spread defaultState p),
      actionQueue = []\<rparr>"

subsection \<open>Admission: \<open>enqueueAction\<close> and \<open>validateActionParams\<close>\<close>

definition validateActionParams :: "'a Action_scheme \<Rightarrow> ValidationResult" where
  "validateActionParams action =
     (case kind action of
        AssignJobs params \<Rightarrow>
          if miners params < 0 \<or> farmers params < 0 \<or> lumberjacks params < 0 \<or> builders params < 0
          then ValidationError [Str ''Job counts must be non-negative integers'']
          else if \<not> isInteger (miners params) \<or> \<not> isInteger (farmers params) \<or>
                  \<not> isInteger (lumberjacks params) \<or> \<not> isInteger (builders params)
          then ValidationError [Str ''Job counts must be integers'']
          else ValidationSuccess
      | Hire cnt \<Rightarrow>
          if cnt < 0 \<or> \<not> isInteger cnt
          then ValidationError [Str ''Hire count must be a non-negative integer'']
          else ValidationSuccess
      | Fire cnt \<Rightarrow>
          if cnt < 0 \<or> \<not> isInteger cnt
          then ValidationError [Str ''Fire count must be a non-negative integer'']
          else ValidationSuccess
      | BuyFood amount \<Rightarrow>
          if amount < 0 \<or> \<not> isInteger amount
          then ValidationError [Str ''Buy food amount must be a non-negative integer'']
          else ValidationSuccess
      | StartUpgrade \<Rightarrow> ValidationSuccess
      | Unknown t \<Rightarrow> ValidationError [Str ''Unknown action type: '', Str t])"

definition enqueueAction :: "'a Action_scheme \<Rightarrow> GameEngine \<Rightarrow> ActionResult \<times> GameEngine" where
  "enqueueAction action e =
     (case validateActionParams action of
        ValidationError err \<Rightarrow>
          (\<lparr>queued = False, applyAtTurn = None, error = Some err\<rparr>, e)
      | ValidationSuccess \<Rightarrow>
          (let queuedAction =
                 \<lparr>kind = kind action, requestedBy = requestedBy action,
                  commandId = commandId action, queuedAtTurn = turn (state e)\<rparr>
           in (\<lparr>queued = True, applyAtTurn = Some (turn (state e) + 1), error = None\<rparr>,
               e\<lparr>actionQueue := actionQueue e @ [queuedAction]\<rparr>)))"

subsection \<open>Apply-time validation and application of one action\<close>

definition validateActionAtApplyTime :: "GameState \<Rightarrow> ActionKind \<Rightarrow> ValidationResult" where
  "validateActionAtApplyTime s action =
     (case action of
        AssignJobs params \<Rightarrow>
          (let sum = miners params + farmers params + lumberjacks params + builders params
           in if sum \<noteq> workers s
              then ValidationError
                     [Str ''AssignJobs sum ('', Num sum,
                      Str '') does not match current workers ('', Num (workers s), Str '')'']
              else ValidationSuccess)
      | Hire cnt \<Rightarrow>
          (let cost = cnt * 5
           in if gold s < cost
              then ValidationError
                     [Str ''Not enough gold to hire '', Num cnt, Str '' workers (need '',
                      Num cost, Str '', have '', Num (gold s), Str '')'']
              else ValidationSuccess)
      | Fire cnt \<Rightarrow>
          if workers s < cnt
          then ValidationError
                 [Str ''Cannot fire '', Num cnt, Str '' workers (only have '',
                  Num (workers s), Str '')'']
          else ValidationSuccess
      | BuyFood amount \<Rightarrow>
          (let cost = amount
           in if gold s < cost
              then ValidationError
                     [Str ''Not enough gold to buy '', Num amount, Str '' food (need '',
                      Num cost, Str '', have '', Num (gold s), Str '')'']
              else ValidationSuccess)
      | StartUpgrade \<Rightarrow>
          if active (upgradeInProgress s)
          then ValidationError [Str ''An upgrade is already in progress'']
          else (let cost = 10 * (castleLevel s + 1)
                in if gold s < cost
                   then ValidationError
                          [Str ''Not enough gold to start upgrade (need '', Num cost,
                           Str '', have '', Num (gold s), Str '')'']
                   else ValidationSuccess)
      | Unknown t \<Rightarrow> ValidationSuccess)"

definition applyAction :: "GameState \<Rightarrow> ActionKind \<Rightarrow> GameState" where
  "applyAction s action =
     (case action of
        AssignJobs params \<Rightarrow>
          s\<lparr>jobs := \<lparr>miners = miners params, farmers = farmers params,
                     lumberjacks = lumberjacks params, builders = builders params\<rparr>\<rparr>
      | Hire cnt \<Rightarrow>
          (let cost = cnt * 5
           in s\<lparr>gold := gold s - cost, workers := workers s + cnt\<rparr>)
      | Fire cnt \<Rightarrow> s\<lparr>workers := workers s - cnt\<rparr>
      | BuyFood amount \<Rightarrow>
          (let cost = amount
           in s\<lparr>gold := gold s - cost, food := food s + amount\<rparr>)
      | StartUpgrade \<Rightarrow>
          (let cost = 10 * (castleLevel s + 1);
               woodReq = 12 * (castleLevel s + 1)
           in s\<lparr>gold := gold s - cost,
                upgradeInProgress :=
                  \<lparr>active = True, target = Some (castleLevel s + 1), progress = Some 0,
                   woodRequired = Some woodReq\<rparr>\<rparr>)
      | Unknown t \<Rightarrow> s)"

subsection \<open>The queue: \<open>sortActionQueue\<close> and \<open>applyQueuedActions\<close>\<close>

text \<open>
  \<open>priorityMap[a.type] || 999\<close>. \<open>Array.prototype.sort\<close> is stable, and the comparator
  orders by the difference of the priorities, so the sorted copy is the stable sort by
  priority: \<open>sort_key\<close>, an insertion sort that keeps equal keys in their order.
\<close>

definition priorityMap :: "ActionKind \<Rightarrow> nat option" where
  "priorityMap k =
     (case k of
        Hire _ \<Rightarrow> Some 1
      | Fire _ \<Rightarrow> Some 1
      | AssignJobs _ \<Rightarrow> Some 2
      | StartUpgrade \<Rightarrow> Some 3
      | BuyFood _ \<Rightarrow> Some 4
      | Unknown _ \<Rightarrow> None)"

definition priority :: "QueuedAction \<Rightarrow> nat" where
  "priority a = orElse (priorityMap (kind a)) 999"

definition sortActionQueue :: "QueuedAction list \<Rightarrow> QueuedAction list" where
  "sortActionQueue q = sort_key priority q"

definition typeName :: "ActionKind \<Rightarrow> string" where
  "typeName k =
     (case k of
        AssignJobs _ \<Rightarrow> ''AssignJobs''
      | Hire _ \<Rightarrow> ''Hire''
      | Fire _ \<Rightarrow> ''Fire''
      | BuyFood _ \<Rightarrow> ''BuyFood''
      | StartUpgrade \<Rightarrow> ''StartUpgrade''
      | Unknown t \<Rightarrow> t)"

definition appliedEntry :: "QueuedAction \<Rightarrow> AppliedActionLog" where
  "appliedEntry a =
     \<lparr>applied_kind = kind a, requested_by = requestedBy a, command_id = commandId a\<rparr>"

text \<open>
  The \<open>for\<close> loop of \<open>applyQueuedActions\<close>: the state, the \<open>applied\<close> array and the
  lines given to \<open>logger.logError\<close> are threaded through the sorted queue. A rejected
  action takes the \<open>continue\<close> branch.
\<close>

fun applyLoop ::
  "QueuedAction list \<Rightarrow> GameState \<Rightarrow> AppliedActionLog list \<Rightarrow> message list \<Rightarrow>
   GameState \<times> AppliedActionLog list \<times> message list" where
  "applyLoop [] s applied errors = (s, applied, errors)"
| "applyLoop (queuedAction # rest) s applied errors =
     (case validateActionAtApplyTime s (kind queuedAction) of
        ValidationError err \<Rightarrow>
          applyLoop rest s applied
            (errors @ [[Str ''Action '', Str (typeName (kind queuedAction)), Str '' rejected: ''] @ err])
      | ValidationSuccess \<Rightarrow>
          applyLoop rest (applyAction s (kind queuedAction))
            (applied @ [appliedEntry queuedAction]) errors)"

definition applyQueuedActions ::
  "GameEngine \<Rightarrow> (AppliedActionLog list \<times> message list) \<times> GameEngine" where
  "applyQueuedActions e =
     (let sortedQueue = sortActionQueue (actionQueue e);
          (s, applied, errors) = applyLoop sortedQueue (state e) [] []
      in ((applied, errors), \<lparr>state = s, actionQueue = []\<rparr>))"

subsection \<open>The phases of a tick\<close>

definition applyProduction :: "GameState \<Rightarrow> GameState" where
  "applyProduction s =
     (let goldProduced = miners (jobs s) * 2;
          foodProduced = farmers (jobs s) * 3;
          woodProduced = lumberjacks (jobs s) * 1
      in s\<lparr>gold := gold s + goldProduced, food := food s + foodProduced,
           wood := wood s + woodProduced\<rparr>)"

text \<open>
  The body of the builders' loop: \<open>upgrade\<close> aliases \<open>state.upgradeInProgress\<close>, so the
  increment of \<open>upgrade.progress\<close> is an update of the state.
\<close>

definition buildStep :: "GameState \<Rightarrow> GameState" where
  "buildStep s =
     (if wood s > 0
      then s\<lparr>wood := wood s - 1,
             upgradeInProgress :=
               (upgradeInProgress s)\<lparr>progress := map_option (\<lambda>p. p + 1) (progress (upgradeInProgress s))\<rparr>\<rparr>
      else s)"

function constructionLoop :: "number \<Rightarrow> GameState \<Rightarrow> GameState" where
  "constructionLoop i s =
     (if i < builders (jobs s) then constructionLoop (i + 1) (buildStep s) else s)"
  by pat_completeness auto
termination
proof (relation "measure (\<lambda>(i, s). nat \<lceil>builders (jobs s) - i\<rceil>)")
  show "wf (measure (\<lambda>(i, s). nat \<lceil>builders (jobs s) - i\<rceil>))"
    by simp
next
  fix i :: number and s :: GameState
  assume lt: "i < builders (jobs s)"
  have "\<lceil>builders (jobs s) - (i + 1)\<rceil> = \<lceil>builders (jobs s) - i\<rceil> - 1"
    by (simp add: algebra_simps flip: ceiling_diff_one)
  moreover have "0 < \<lceil>builders (jobs s) - i\<rceil>"
    using lt by simp
  ultimately show "((i + 1, buildStep s), (i, s)) \<in> measure (\<lambda>(i, s). nat \<lceil>builders (jobs s) - i\<rceil>)"
    by (simp add: buildStep_def)
qed

declare constructionLoop.simps [simp del]

definition upgradeComplete :: "UpgradeState \<Rightarrow> bool" where
  "upgradeComplete u =
     (case (progress u, woodRequired u) of
        (Some p, Some w) \<Rightarrow> p \<ge> w
      | _ \<Rightarrow> False)"

definition applyConstruction :: "GameState \<Rightarrow> GameState" where
  "applyConstruction s =
     (if \<not> active (upgradeInProgress s) then s
      else (let s1 = constructionLoop 0 s
            in if upgradeComplete (upgradeInProgress s1)
               then s1\<lparr>castleLevel := castleLevel s1 + 1, gold := gold s1 + 5,
                       upgradeInProgress := inactiveUpgrade\<rparr>
               else s1))"

definition reduceJobsByPriority :: "number \<Rightarrow> GameState \<Rightarrow> GameState" where
  "reduceJobsByPriority workersToRemove s =
     (let remaining = workersToRemove;
          buildersToRemove = min remaining (builders (jobs s));
          s = s\<lparr>jobs := (jobs s)\<lparr>builders := builders (jobs s) - buildersToRemove\<rparr>\<rparr>;
          remaining = remaining - buildersToRemove;
          (s, remaining) =
            (if remaining > 0
             then (let lumberjacksToRemove = min remaining (lumberjacks (jobs s))
                   in (s\<lparr>jobs := (jobs s)\<lparr>lumberjacks := lumberjacks (jobs s) - lumberjacksToRemove\<rparr>\<rparr>,
                       remaining - lumberjacksToRemove))
             else (s, remaining));
          (s, remaining) =
            (if remaining > 0
             then (let farmersToRemove = min remaining (farmers (jobs s))
                   in (s\<lparr>jobs := (jobs s)\<lparr>farmers := farmers (jobs s) - farmersToRemove\<rparr>\<rparr>,
                       remaining - farmersToRemove))
             else (s, remaining));
          (s, remaining) =
            (if remaining > 0
             then (let minersToRemove = min remaining (miners (jobs s))
                   in (s\<lparr>jobs := (jobs s)\<lparr>miners := miners (jobs s) - minersToRemove\<rparr>\<rparr>,
                       remaining - minersToRemove))
             else (s, remaining))
      in s)"

definition applyUpkeep :: "GameState \<Rightarrow> GameState" where
  "applyUpkeep s =
     (let foodNeeded = workers s;
          s = s\<lparr>food := food s - foodNeeded\<rparr>
      in if food s < 0
         then (let shortage = - food s;
                   s = s\<lparr>food := 0\<rparr>;
                   workersLost = of_int \<lceil>shortage / 2\<rceil>;
                   s = s\<lparr>workers := max 0 (workers s - workersLost)\<rparr>
               in if workersLost > 0 then reduceJobsByPriority workersLost s else s)
         else s)"

definition applyTaxes :: "GameState \<Rightarrow> GameState" where
  "applyTaxes s =
     (let taxIncome = 1 * castleLevel s
      in if taxIncome > 0 then s\<lparr>gold := gold s + taxIncome\<rparr> else s)"

definition clampResources :: "GameState \<Rightarrow> GameState" where
  "clampResources s =
     s\<lparr>gold := max 0 (gold s), food := max 0 (food s), wood := max 0 (wood s)\<rparr>"

subsection \<open>\<open>tick\<close>\<close>

text \<open>
  The eight steps of \<open>tick\<close>, in the order of the source; the two logging steps leave
  the engine as it is. \<open>nextTurn\<close> is read before the actions are applied.
\<close>

definition tick :: "GameEngine \<Rightarrow> GameEngine" where
  "tick e =
     (let nextTurn = turn (state e) + 1;
          (appliedActions, e1) = applyQueuedActions e;
          s = (state e1)\<lparr>turn := nextTurn\<rparr>;
          s = applyProduction s;
          s = applyConstruction s;
          s = applyUpkeep s;
          s = applyTaxes s;
          s = clampResources s
      in e1\<lparr>state := s\<rparr>)"

subsection \<open>Notions used by the properties\<close>

text \<open>
  The state of a tick when its step 7, the clamp, starts: actions applied, turn
  incremented, production, construction, upkeep and taxes done. Then the sum of the four
  job counts; one step of the apply loop on the state alone; the
  well-formedness of a reachable state (every count a non-negative integer, an active
  upgrade with \<open>progress < woodRequired\<close>, a queue of admitted actions); and the engines
  that \<open>new GameEngine(logger)\<close>, \<open>enqueueAction\<close> and \<open>tick\<close> can produce.
\<close>

definition beforeClamp :: "GameEngine \<Rightarrow> GameState" where
  "beforeClamp e =
     applyTaxes (applyUpkeep (applyConstruction (applyProduction
       ((state (snd (applyQueuedActions e)))\<lparr>turn := turn (state e) + 1\<rparr>))))"

definition jobsTotal :: "JobCounts \<Rightarrow> number" where
  "jobsTotal j = miners j + farmers j + lumberjacks j + builders j"

definition applyStep :: "GameState \<Rightarrow> QueuedAction \<Rightarrow> GameState" where
  "applyStep s a =
     (case validateActionAtApplyTime s (kind a) of
        ValidationError err \<Rightarrow> s
      | ValidationSuccess \<Rightarrow> applyAction s (kind a))"

definition countOk :: "number \<Rightarrow> bool" where
  "countOk x = (0 \<le> x \<and> isInteger x)"

definition jobsOk :: "JobCounts \<Rightarrow> bool" where
  "jobsOk j = (countOk (miners j) \<and> countOk (farmers j) \<and> countOk (lumberjacks j) \<and> countOk (builders j))"








text \<open>
  What \<open>validateActionParams\<close> accepts, stated on the parameters: every number of a known
  kind is an integer and not negative.
\<close>

definition paramsOk :: "ActionKind \<Rightarrow> bool" where
  "paramsOk k =
     (case k of
        AssignJobs p \<Rightarrow>
          0 \<le> miners p \<and> isInteger (miners p) \<and> 0 \<le> farmers p \<and> isInteger (farmers p) \<and>
          0 \<le> lumberjacks p \<and> isInteger (lumberjacks p) \<and>
          0 \<le> builders p \<and> isInteger (builders p)
      | Hire n \<Rightarrow> 0 \<le> n \<and> isInteger n
      | Fire n \<Rightarrow> 0 \<le> n \<and> isInteger n
      | BuyFood n \<Rightarrow> 0 \<le> n \<and> isInteger n
      | StartUpgrade \<Rightarrow> True
      | Unknown t \<Rightarrow> False)"

text \<open>
  The queued actions that pass apply-time validation, each checked against the state its
  predecessors left; and the equation between the job counts and the workforce.
\<close>

fun accepted :: "GameState \<Rightarrow> QueuedAction list \<Rightarrow> QueuedAction list" where
  "accepted s [] = []"
| "accepted s (a # rest) =
     (case validateActionAtApplyTime s (kind a) of
        ValidationError err \<Rightarrow> accepted s rest
      | ValidationSuccess \<Rightarrow> a # accepted (applyAction s (kind a)) rest)"

definition sumHolds :: "GameState \<Rightarrow> bool" where
  "sumHolds s = (jobsTotal (jobs s) = workers s)"

text \<open>
  The lines that the apply loop gives to \<open>logger.logError\<close>, one for each rejected action.
\<close>

fun rejections :: "GameState \<Rightarrow> QueuedAction list \<Rightarrow> message list" where
  "rejections s [] = []"
| "rejections s (a # rest) =
     (case validateActionAtApplyTime s (kind a) of
        ValidationError err \<Rightarrow>
          ([Str ''Action '', Str (typeName (kind a)), Str '' rejected: ''] @ err) # rejections s rest
      | ValidationSuccess \<Rightarrow> rejections (applyAction s (kind a)) rest)"

section \<open>Properties\<close>

subsection \<open>Well-formedness is an invariant of the reachable engines\<close>

lemma isInteger_iff: "isInteger x \<longleftrightarrow> x \<in> \<int>"
  unfolding isInteger_def by (metis Ints_of_int Ints_cases floor_of_int)

lemma countOk_iff: "countOk x \<longleftrightarrow> 0 \<le> x \<and> x \<in> \<int>"
  by (simp add: countOk_def isInteger_iff)

lemma countOk_simps [simp]: "countOk 0" "countOk 1" "countOk (numeral n)"
  by (simp_all add: countOk_iff)




lemma countOk_min: "countOk a \<Longrightarrow> countOk b \<Longrightarrow> countOk (min a b)"
  by (simp add: countOk_iff min_def)


lemma validParams_cases:
  "validateActionParams a = ValidationSuccess \<longleftrightarrow>
     (case kind a of
        AssignJobs p \<Rightarrow> jobsOk p
      | Hire n \<Rightarrow> countOk n
      | Fire n \<Rightarrow> countOk n
      | BuyFood n \<Rightarrow> countOk n
      | StartUpgrade \<Rightarrow> True
      | Unknown t \<Rightarrow> False)"
  by (auto simp: validateActionParams_def jobsOk_def countOk_def split: ActionKind.splits)


lemma applyLoop_append:
  "applyLoop (xs @ ys) s ap er =
     (case applyLoop xs s ap er of (s', ap', er') \<Rightarrow> applyLoop ys s' ap' er')"
  by (induction xs arbitrary: s ap er) (auto split: ValidationResult.splits)

lemma fst_applyLoop: "fst (applyLoop l s ap er) = foldl applyStep s l"
  by (induction l arbitrary: s ap er) (auto simp: applyStep_def split: ValidationResult.splits)




lemma state_applyQueuedActions:
  "state (snd (applyQueuedActions e)) = foldl applyStep (state e) (sortActionQueue (actionQueue e))"
  by (simp add: applyQueuedActions_def Let_def split_beta fst_applyLoop)



lemma constructionLoop_preserves:
  assumes step: "\<And>s. P s \<Longrightarrow> P (buildStep s)" and init: "P s"
  shows "P (constructionLoop i s)"
  using init
proof (induction i s rule: constructionLoop.induct)
  case (1 i s)
  show ?case
  proof (cases "i < builders (jobs s)")
    case True
    then have "constructionLoop i s = constructionLoop (i + 1) (buildStep s)"
      by (subst constructionLoop.simps) simp
    with "1.IH" [OF True] step [OF "1.prems"] show ?thesis by simp
  next
    case False
    then have "constructionLoop i s = s"
      by (subst constructionLoop.simps) simp
    with "1.prems" show ?thesis by simp
  qed
qed









lemma reduceJobsByPriority_frame:
  "turn (reduceJobsByPriority r s) = turn s"
  "gold (reduceJobsByPriority r s) = gold s"
  "food (reduceJobsByPriority r s) = food s"
  "wood (reduceJobsByPriority r s) = wood s"
  "workers (reduceJobsByPriority r s) = workers s"
  "castleLevel (reduceJobsByPriority r s) = castleLevel s"
  "upgradeInProgress (reduceJobsByPriority r s) = upgradeInProgress s"
  by (simp_all add: reduceJobsByPriority_def Let_def)






lemma turn_applyStep: "turn (applyStep s a) = turn s"
  by (simp add: applyStep_def applyAction_def Let_def split: ValidationResult.splits ActionKind.splits)


lemma state_tick: "state (tick e) = clampResources (beforeClamp e)"
  by (simp add: tick_def beforeClamp_def Let_def split_beta)






subsection \<open>The clamp and the resources after a tick\<close>




subsection \<open>The default initial state\<close>

text \<open>
  Claim C10. Constructed without an override, the engine starts at turn 0 with 25 gold,
  18 food, no wood, 5 workers, castle level 0, the jobs 2 miners, 1 farmer, 1 lumberjack
  and no builder, no active upgrade, and an empty queue.
\<close>

theorem C10_default_initial_state:
  "newGameEngine None =
     \<lparr>state =
        \<lparr>turn = 0, gold = 25, food = 18, wood = 0, workers = 5, castleLevel = 0,
         jobs = \<lparr>miners = 2, farmers = 1, lumberjacks = 1, builders = 0\<rparr>,
         upgradeInProgress =
           \<lparr>active = False, target = None, progress = None, woodRequired = None\<rparr>\<rparr>,
      actionQueue = []\<rparr>"
  by (simp add: newGameEngine_def defaultState_def inactiveUpgrade_def)

subsection \<open>Evaluation of the default engine\<close>


lemmas action_defs =
  validateActionAtApplyTime_def applyAction_def appliedEntry_def typeName_def


subsection \<open>Admission\<close>

lemma validateActionParams_iff:
  "validateActionParams a = ValidationSuccess \<longleftrightarrow> paramsOk (kind a)"
  by (simp add: validParams_cases paramsOk_def jobsOk_def countOk_def conj_ac split: ActionKind.splits)

text \<open>
  Claim C7. \<open>enqueueAction\<close> never changes the state. Whether it queues the action
  depends on the action alone, not on the engine: it does so exactly when the kind is known
  and every numeric parameter is an integer that is not negative. On success the action,
  stamped with the current turn, is appended at the end of the queue and the caller is told
  \<open>applyAtTurn = turn + 1\<close>; on failure the engine is unchanged and an error is returned.
\<close>

theorem C7_enqueue:
  fixes a :: Action
  shows "state (snd (enqueueAction a e)) = state e \<and>
     queued (fst (enqueueAction a e)) = paramsOk (kind a) \<and>
     queued (fst (enqueueAction a e)) = queued (fst (enqueueAction a e')) \<and>
     (if paramsOk (kind a)
      then actionQueue (snd (enqueueAction a e)) =
             actionQueue e @
               [\<lparr>kind = kind a, requestedBy = requestedBy a, commandId = commandId a,
                 queuedAtTurn = turn (state e)\<rparr>] \<and>
           fst (enqueueAction a e) =
             \<lparr>queued = True, applyAtTurn = Some (turn (state e) + 1), error = None\<rparr>
      else snd (enqueueAction a e) = e \<and>
           applyAtTurn (fst (enqueueAction a e)) = None \<and>
           error (fst (enqueueAction a e)) \<noteq> None)"
proof -
  have "validateActionParams a = ValidationSuccess \<or> (\<exists>m. validateActionParams a = ValidationError m)"
    by (cases "validateActionParams a") auto
  then show ?thesis
    using validateActionParams_iff [of a]
    by (auto simp: enqueueAction_def Let_def)
qed

theorem C7_enqueue_witness:
  "paramsOk (Hire 2) \<and> \<not> paramsOk (Hire (1/2)) \<and> \<not> paramsOk (BuyFood (-1)) \<and> \<not> paramsOk (Unknown ''Pray'') \<and>
   fst (enqueueAction \<lparr>kind = Hire 2, requestedBy = Some ''Accountant'', commandId = None\<rparr> (newGameEngine None)) =
     \<lparr>queued = True, applyAtTurn = Some 1, error = None\<rparr> \<and>
   actionQueue (snd (enqueueAction \<lparr>kind = Hire 2, requestedBy = Some ''Accountant'', commandId = None\<rparr> (newGameEngine None))) =
     [\<lparr>kind = Hire 2, requestedBy = Some ''Accountant'', commandId = None, queuedAtTurn = 0\<rparr>] \<and>
   state (snd (enqueueAction \<lparr>kind = Hire 2, requestedBy = Some ''Accountant'', commandId = None\<rparr> (newGameEngine None))) =
     state (newGameEngine None) \<and>
   snd (enqueueAction \<lparr>kind = Hire (1/2), requestedBy = None, commandId = None\<rparr> (newGameEngine None)) = newGameEngine None"
proof -
  let ?a = "\<lparr>kind = Hire 2, requestedBy = Some ''Accountant'', commandId = None\<rparr>"
  let ?b = "\<lparr>kind = Hire (1/2), requestedBy = None, commandId = None\<rparr>"
  have p: "paramsOk (Hire 2)" "\<not> paramsOk (Hire (1/2))" "\<not> paramsOk (BuyFood (-1))" "\<not> paramsOk (Unknown ''Pray'')"
    by (simp_all add: paramsOk_def isInteger_def)
  show ?thesis
    using p C7_enqueue [of ?a "newGameEngine None" "tick (newGameEngine None)"]
      C7_enqueue [of ?b "newGameEngine None" "tick (newGameEngine None)"]
    by (simp add: newGameEngine_def defaultState_def)
qed

subsection \<open>Upkeep\<close>








subsection \<open>The sum of the jobs and the workforce\<close>

lemma applied_applyLoop:
  "fst (snd (applyLoop l s ap er)) = ap @ map appliedEntry (accepted s l)"
  by (induction l arbitrary: s ap er) (auto split: ValidationResult.splits)

lemma applied_applyQueuedActions:
  "fst (fst (applyQueuedActions e)) =
     map appliedEntry (accepted (state e) (sortActionQueue (actionQueue e)))"
  by (simp add: applyQueuedActions_def Let_def split_beta applied_applyLoop)






lemma buildStep_frame:
  "jobs (buildStep s) = jobs s" "workers (buildStep s) = workers s" "food (buildStep s) = food s"
  "gold (buildStep s) = gold s" "castleLevel (buildStep s) = castleLevel s" "turn (buildStep s) = turn s"
  "active (upgradeInProgress (buildStep s)) = active (upgradeInProgress s)"
  "woodRequired (upgradeInProgress (buildStep s)) = woodRequired (upgradeInProgress s)"
  "target (upgradeInProgress (buildStep s)) = target (upgradeInProgress s)"
  by (simp_all add: buildStep_def)

lemma constructionLoop_frame:
  "jobs (constructionLoop i s) = jobs s \<and> workers (constructionLoop i s) = workers s \<and>
   food (constructionLoop i s) = food s \<and> gold (constructionLoop i s) = gold s \<and>
   castleLevel (constructionLoop i s) = castleLevel s \<and> turn (constructionLoop i s) = turn s \<and>
   active (upgradeInProgress (constructionLoop i s)) = active (upgradeInProgress s) \<and>
   woodRequired (upgradeInProgress (constructionLoop i s)) = woodRequired (upgradeInProgress s) \<and>
   target (upgradeInProgress (constructionLoop i s)) = target (upgradeInProgress s)"
  by (rule constructionLoop_preserves
      [where P = "\<lambda>t. jobs t = jobs s \<and> workers t = workers s \<and> food t = food s \<and> gold t = gold s \<and>
         castleLevel t = castleLevel s \<and> turn t = turn s \<and>
         active (upgradeInProgress t) = active (upgradeInProgress s) \<and>
         woodRequired (upgradeInProgress t) = woodRequired (upgradeInProgress s) \<and>
         target (upgradeInProgress t) = target (upgradeInProgress s)"])
     (simp_all add: buildStep_frame)


lemma applyProduction_frame:
  "jobs (applyProduction s) = jobs s" "workers (applyProduction s) = workers s"
  "upgradeInProgress (applyProduction s) = upgradeInProgress s"
  "castleLevel (applyProduction s) = castleLevel s" "turn (applyProduction s) = turn s"
  by (simp_all add: applyProduction_def Let_def)

lemma applyTaxes_frame:
  "jobs (applyTaxes s) = jobs s" "workers (applyTaxes s) = workers s" "food (applyTaxes s) = food s"
  "wood (applyTaxes s) = wood s" "upgradeInProgress (applyTaxes s) = upgradeInProgress s"
  "castleLevel (applyTaxes s) = castleLevel s" "turn (applyTaxes s) = turn s"
  by (simp_all add: applyTaxes_def Let_def)

lemma clampResources_frame:
  "jobs (clampResources s) = jobs s" "workers (clampResources s) = workers s"
  "upgradeInProgress (clampResources s) = upgradeInProgress s"
  "castleLevel (clampResources s) = castleLevel s" "turn (clampResources s) = turn s"
  by (simp_all add: clampResources_def)

lemma sumHolds_cong:
  "jobs t = jobs s \<Longrightarrow> workers t = workers s \<Longrightarrow> sumHolds t = sumHolds s"
  by (simp add: sumHolds_def)







subsection \<open>Construction\<close>

lemma constructionLoop_step:
  "i < builders (jobs s) \<Longrightarrow> constructionLoop i s = constructionLoop (i + 1) (buildStep s)"
  by (subst constructionLoop.simps) simp

lemma constructionLoop_done:
  "\<not> i < builders (jobs s) \<Longrightarrow> constructionLoop i s = s"
  by (subst constructionLoop.simps) simp

lemma constructionLoop_funpow_from:
  "builders (jobs s) = of_nat (k + d) \<Longrightarrow> constructionLoop (of_nat k) s = (buildStep ^^ d) s"
proof (induction d arbitrary: k s)
  case 0
  then show ?case by (simp add: constructionLoop_done)
next
  case (Suc d)
  have lt: "(of_nat k :: real) < builders (jobs s)"
    using Suc.prems by simp
  have "builders (jobs (buildStep s)) = of_nat (Suc k + d)"
    using Suc.prems by (simp add: buildStep_frame)
  from Suc.IH [OF this] have "constructionLoop (of_nat k + 1) (buildStep s) = (buildStep ^^ d) (buildStep s)"
    by (simp add: add.commute)
  with constructionLoop_step [OF lt] show ?case
    by (simp add: funpow_Suc_right del: funpow.simps)
qed

lemma constructionLoop_funpow:
  "builders (jobs s) = of_nat n \<Longrightarrow> constructionLoop 0 s = (buildStep ^^ n) s"
  using constructionLoop_funpow_from [of s 0 n] by simp

lemma buildStep_funpow_closed:
  "wood s = of_nat w \<Longrightarrow> progress (upgradeInProgress s) = Some p \<Longrightarrow>
   (buildStep ^^ n) s =
     s\<lparr>wood := of_nat (w - min n w),
       upgradeInProgress := (upgradeInProgress s)\<lparr>progress := Some (p + of_nat (min n w))\<rparr>\<rparr>"
proof (induction n arbitrary: s w p)
  case 0
  then show ?case by simp
next
  case (Suc n)
  show ?case
  proof (cases w)
    case 0
    with Suc.prems have "buildStep s = s" by (simp add: buildStep_def)
    with Suc.IH [OF Suc.prems] 0 show ?thesis
      by (simp add: funpow_Suc_right del: funpow.simps)
  next
    case (Suc w')
    with Suc.prems have b: "buildStep s =
        s\<lparr>wood := of_nat w',
          upgradeInProgress := (upgradeInProgress s)\<lparr>progress := Some (p + 1)\<rparr>\<rparr>"
      by (simp add: buildStep_def)
    have "(buildStep ^^ n) (buildStep s) =
        (buildStep s)\<lparr>wood := of_nat (w' - min n w'),
          upgradeInProgress := (upgradeInProgress (buildStep s))\<lparr>progress := Some (p + 1 + of_nat (min n w'))\<rparr>\<rparr>"
      by (rule Suc.IH) (simp_all add: b)
    then show ?thesis
      using Suc by (simp add: funpow_Suc_right b add.assoc del: funpow.simps)
  qed
qed


lemma constructionLoop_closed:
  assumes "builders (jobs s) = of_nat n" "wood s = of_nat w" "progress (upgradeInProgress s) = Some p"
  shows "constructionLoop 0 s =
      s\<lparr>wood := of_nat (w - min n w),
        upgradeInProgress := (upgradeInProgress s)\<lparr>progress := Some (p + of_nat (min n w))\<rparr>\<rparr>"
  using assms by (simp add: constructionLoop_funpow buildStep_funpow_closed)



subsection \<open>The upgrade\<close>

lemma validate_StartUpgrade_active:
  "active (upgradeInProgress s) \<Longrightarrow>
   validateActionAtApplyTime s StartUpgrade = ValidationError [Str ''An upgrade is already in progress'']"
  by (simp add: validateActionAtApplyTime_def)

lemma validate_StartUpgrade_success:
  "validateActionAtApplyTime s StartUpgrade = ValidationSuccess \<longleftrightarrow>
     \<not> active (upgradeInProgress s) \<and> 10 * (castleLevel s + 1) \<le> gold s"
  by (auto simp: validateActionAtApplyTime_def Let_def)

lemma upgrade_applyAction_other:
  "k \<noteq> StartUpgrade \<Longrightarrow> upgradeInProgress (applyAction s k) = upgradeInProgress s"
  by (cases k) (simp_all add: applyAction_def Let_def)

lemma castleLevel_applyAction: "castleLevel (applyAction s k) = castleLevel s"
  by (cases k) (simp_all add: applyAction_def Let_def)

lemma castleLevel_applyStep: "castleLevel (applyStep s a) = castleLevel s"
  by (simp add: applyStep_def castleLevel_applyAction split: ValidationResult.splits)

lemma castleLevel_foldl_applyStep: "castleLevel (foldl applyStep s l) = castleLevel s"
  by (induction l arbitrary: s) (simp_all add: castleLevel_applyStep)

lemma upgrade_applyStep_active:
  assumes "active (upgradeInProgress s)"
  shows "upgradeInProgress (applyStep s a) = upgradeInProgress s"
proof (cases "kind a = StartUpgrade")
  case True
  with assms show ?thesis
    by (simp add: applyStep_def validate_StartUpgrade_active)
next
  case False
  then show ?thesis
    by (simp add: applyStep_def upgrade_applyAction_other split: ValidationResult.splits)
qed

lemma upgrade_foldl_active:
  "active (upgradeInProgress s) \<Longrightarrow>
   upgradeInProgress (foldl applyStep s l) = upgradeInProgress s \<and>
   (\<forall>x \<in> set (accepted s l). kind x \<noteq> StartUpgrade)"
proof (induction l arbitrary: s)
  case Nil
  then show ?case by simp
next
  case (Cons a l)
  have u: "upgradeInProgress (applyStep s a) = upgradeInProgress s"
    using Cons.prems by (rule upgrade_applyStep_active)
  then have act: "active (upgradeInProgress (applyStep s a))"
    using Cons.prems by simp
  have rej: "kind a = StartUpgrade \<Longrightarrow> validateActionAtApplyTime s (kind a) \<noteq> ValidationSuccess"
    using Cons.prems by (simp add: validate_StartUpgrade_active)
  from Cons.IH [OF act] u rej show ?case
    by (auto simp: applyStep_def split: ValidationResult.splits)
qed

lemma upgrade_foldl_started:
  "\<not> active (upgradeInProgress s) \<Longrightarrow> active (upgradeInProgress (foldl applyStep s l)) \<Longrightarrow>
   \<exists>x \<in> set (accepted s l). kind x = StartUpgrade"
proof (induction l arbitrary: s)
  case Nil
  then show ?case by simp
next
  case (Cons a l)
  show ?case
  proof (cases "validateActionAtApplyTime s (kind a) = ValidationSuccess \<and> kind a = StartUpgrade")
    case True
    then show ?thesis by auto
  next
    case False
    then have "upgradeInProgress (applyStep s a) = upgradeInProgress s"
      by (auto simp: applyStep_def upgrade_applyAction_other split: ValidationResult.splits)
    with Cons.prems have "\<not> active (upgradeInProgress (applyStep s a))"
      "active (upgradeInProgress (foldl applyStep (applyStep s a) l))"
      by simp_all
    from Cons.IH [OF this] show ?thesis
      by (auto simp: applyStep_def split: ValidationResult.splits)
  qed
qed

lemma upgrade_applyUpkeep: "upgradeInProgress (applyUpkeep s) = upgradeInProgress s"
  by (simp add: applyUpkeep_def Let_def reduceJobsByPriority_frame)

lemma castleLevel_applyUpkeep: "castleLevel (applyUpkeep s) = castleLevel s"
  by (simp add: applyUpkeep_def Let_def reduceJobsByPriority_frame)

lemma applyConstruction_cases:
  "applyConstruction s =
     (if \<not> active (upgradeInProgress s) then s
      else if upgradeComplete (upgradeInProgress (constructionLoop 0 s))
      then (constructionLoop 0 s)
             \<lparr>castleLevel := castleLevel s + 1, gold := gold s + 5, upgradeInProgress := inactiveUpgrade\<rparr>
      else constructionLoop 0 s)"
  by (simp add: applyConstruction_def Let_def constructionLoop_frame)

lemma upgrade_tick:
  "upgradeInProgress (state (tick e)) =
     upgradeInProgress (applyConstruction (applyProduction ((state (snd (applyQueuedActions e)))\<lparr>turn := turn (state e) + 1\<rparr>)))"
  "castleLevel (state (tick e)) =
     castleLevel (applyConstruction (applyProduction ((state (snd (applyQueuedActions e)))\<lparr>turn := turn (state e) + 1\<rparr>)))"
  by (simp_all add: state_tick beforeClamp_def Let_def clampResources_frame applyTaxes_frame
      upgrade_applyUpkeep castleLevel_applyUpkeep)

text \<open>
  Claim C5. The state holds one \<open>upgradeInProgress\<close> record, so at most one upgrade is
  active. While it is active, \<open>StartUpgrade\<close> fails apply-time validation with
  ``An upgrade is already in progress'': the loop logs the rejection, records nothing as
  applied and leaves the state alone. The record changes in two places only. An accepted
  \<open>StartUpgrade\<close>, which requires an inactive upgrade, activates it with progress 0; no
  other action and none of production, upkeep, taxes and clamp touches it. Construction
  leaves an inactive upgrade inactive and deactivates an active one exactly when the
  progress after the builders' loop has reached \<open>woodRequired\<close>, raising the castle
  level by 1. For a whole tick: an upgrade active at the start admits no \<open>StartUpgrade\<close>;
  one that is inactive at the start and active at the end was started by an accepted
  \<open>StartUpgrade\<close> of that tick; one that is active at the start and inactive at the end
  was completed in that tick.
\<close>

theorem C5_upgrade_transitions:
  "(active (upgradeInProgress s) \<longrightarrow>
      validateActionAtApplyTime s StartUpgrade =
        ValidationError [Str ''An upgrade is already in progress''] \<and>
      (kind a = StartUpgrade \<longrightarrow>
         applyLoop (a # rest) s ap er =
           applyLoop rest s ap
             (er @ [[Str ''Action '', Str ''StartUpgrade'', Str '' rejected: '',
                     Str ''An upgrade is already in progress'']]))) \<and>
   (validateActionAtApplyTime s StartUpgrade = ValidationSuccess \<longrightarrow>
      \<not> active (upgradeInProgress s) \<and>
      upgradeInProgress (applyAction s StartUpgrade) =
        \<lparr>active = True, target = Some (castleLevel s + 1), progress = Some 0,
         woodRequired = Some (12 * (castleLevel s + 1))\<rparr>) \<and>
   (k \<noteq> StartUpgrade \<longrightarrow> upgradeInProgress (applyAction s k) = upgradeInProgress s) \<and>
   upgradeInProgress (applyProduction s) = upgradeInProgress s \<and>
   upgradeInProgress (applyUpkeep s) = upgradeInProgress s \<and>
   upgradeInProgress (applyTaxes s) = upgradeInProgress s \<and>
   upgradeInProgress (clampResources s) = upgradeInProgress s \<and>
   (\<not> active (upgradeInProgress s) \<longrightarrow> applyConstruction s = s) \<and>
   (active (upgradeInProgress s) \<longrightarrow>
      (if upgradeComplete (upgradeInProgress (constructionLoop 0 s))
       then upgradeInProgress (applyConstruction s) = inactiveUpgrade \<and>
            castleLevel (applyConstruction s) = castleLevel s + 1
       else applyConstruction s = constructionLoop 0 s \<and>
            active (upgradeInProgress (applyConstruction s)))) \<and>
   (active (upgradeInProgress (state e)) \<longrightarrow>
      (\<forall>x \<in> set (fst (fst (applyQueuedActions e))). applied_kind x \<noteq> StartUpgrade) \<and>
      upgradeInProgress (state (snd (applyQueuedActions e))) = upgradeInProgress (state e)) \<and>
   (\<not> active (upgradeInProgress (state e)) \<and> active (upgradeInProgress (state (tick e))) \<longrightarrow>
      (\<exists>x \<in> set (fst (fst (applyQueuedActions e))). applied_kind x = StartUpgrade)) \<and>
   (active (upgradeInProgress (state e)) \<and> \<not> active (upgradeInProgress (state (tick e))) \<longrightarrow>
      castleLevel (state (tick e)) = castleLevel (state e) + 1 \<and>
      upgradeComplete
        (upgradeInProgress
           (constructionLoop 0
              (applyProduction ((state (snd (applyQueuedActions e)))\<lparr>turn := turn (state e) + 1\<rparr>)))))"
proof -
  let ?q = "sortActionQueue (actionQueue e)"
  let ?s1 = "state (snd (applyQueuedActions e))"
  let ?s2 = "applyProduction (?s1\<lparr>turn := turn (state e) + 1\<rparr>)"
  have s1: "?s1 = foldl applyStep (state e) ?q"
    by (rule state_applyQueuedActions)
  have u2: "upgradeInProgress ?s2 = upgradeInProgress ?s1" and c2: "castleLevel ?s2 = castleLevel (state e)"
    by (simp_all add: applyProduction_frame s1 castleLevel_foldl_applyStep)
  have A: "validateActionAtApplyTime s StartUpgrade =
        ValidationError [Str ''An upgrade is already in progress''] \<and>
      (kind a = StartUpgrade \<longrightarrow>
         applyLoop (a # rest) s ap er =
           applyLoop rest s ap
             (er @ [[Str ''Action '', Str ''StartUpgrade'', Str '' rejected: '',
                     Str ''An upgrade is already in progress'']]))"
    if "active (upgradeInProgress s)"
    using that by (simp add: validate_StartUpgrade_active typeName_def)
  have B: "\<not> active (upgradeInProgress s) \<and>
      upgradeInProgress (applyAction s StartUpgrade) =
        \<lparr>active = True, target = Some (castleLevel s + 1), progress = Some 0,
         woodRequired = Some (12 * (castleLevel s + 1))\<rparr>"
    if "validateActionAtApplyTime s StartUpgrade = ValidationSuccess"
    using that by (simp add: validate_StartUpgrade_success applyAction_def Let_def)
  have C: "if upgradeComplete (upgradeInProgress (constructionLoop 0 s))
       then upgradeInProgress (applyConstruction s) = inactiveUpgrade \<and>
            castleLevel (applyConstruction s) = castleLevel s + 1
       else applyConstruction s = constructionLoop 0 s \<and>
            active (upgradeInProgress (applyConstruction s))"
    if "active (upgradeInProgress s)"
    using that by (simp add: applyConstruction_cases constructionLoop_frame)
  have D: "(\<forall>x \<in> set (fst (fst (applyQueuedActions e))). applied_kind x \<noteq> StartUpgrade) \<and>
      upgradeInProgress ?s1 = upgradeInProgress (state e)"
    if "active (upgradeInProgress (state e))"
    using upgrade_foldl_active [OF that, of ?q]
    by (auto simp: s1 applied_applyQueuedActions appliedEntry_def)
  have E: "\<exists>x \<in> set (fst (fst (applyQueuedActions e))). applied_kind x = StartUpgrade"
    if "\<not> active (upgradeInProgress (state e)) \<and> active (upgradeInProgress (state (tick e)))"
  proof -
    from that have "active (upgradeInProgress (applyConstruction ?s2))"
      by (simp add: upgrade_tick)
    then have "active (upgradeInProgress ?s2)"
      by (auto simp: applyConstruction_cases inactiveUpgrade_def constructionLoop_frame split: if_splits)
    then have "active (upgradeInProgress ?s1)"
      by (simp only: u2)
    then have "active (upgradeInProgress (foldl applyStep (state e) ?q))"
      by (simp only: s1)
    with that have "\<exists>x \<in> set (accepted (state e) ?q). kind x = StartUpgrade"
      by (intro upgrade_foldl_started) simp_all
    then show ?thesis
      by (auto simp: applied_applyQueuedActions appliedEntry_def)
  qed
  have F: "castleLevel (state (tick e)) = castleLevel (state e) + 1 \<and>
      upgradeComplete (upgradeInProgress (constructionLoop 0 ?s2))"
    if "active (upgradeInProgress (state e)) \<and> \<not> active (upgradeInProgress (state (tick e)))"
  proof -
    from that D have "active (upgradeInProgress ?s2)"
      by (simp add: u2)
    moreover from that have "\<not> active (upgradeInProgress (applyConstruction ?s2))"
      by (simp add: upgrade_tick)
    ultimately have "upgradeComplete (upgradeInProgress (constructionLoop 0 ?s2))"
      by (auto simp: applyConstruction_cases constructionLoop_frame split: if_splits)
    moreover from this \<open>active (upgradeInProgress ?s2)\<close>
    have "castleLevel (applyConstruction ?s2) = castleLevel ?s2 + 1"
      by (simp add: applyConstruction_cases)
    ultimately show ?thesis
      by (simp add: upgrade_tick c2)
  qed
  have G: "k \<noteq> StartUpgrade \<longrightarrow> upgradeInProgress (applyAction s k) = upgradeInProgress s"
    by (simp add: upgrade_applyAction_other)
  have H: "upgradeInProgress (applyProduction s) = upgradeInProgress s"
    "upgradeInProgress (applyUpkeep s) = upgradeInProgress s"
    "upgradeInProgress (applyTaxes s) = upgradeInProgress s"
    "upgradeInProgress (clampResources s) = upgradeInProgress s"
    by (simp_all add: applyProduction_frame upgrade_applyUpkeep applyTaxes_frame clampResources_frame)
  have I: "\<not> active (upgradeInProgress s) \<longrightarrow> applyConstruction s = s"
    by (simp add: applyConstruction_cases)
  show ?thesis
    using A B C D E F G H I by blast
qed

theorem C5_upgrade_transitions_witness:
  "validateActionAtApplyTime
     \<lparr>turn = 3, gold = 40, food = 9, wood = 5, workers = 5, castleLevel = 0,
      jobs = \<lparr>miners = 1, farmers = 1, lumberjacks = 0, builders = 3\<rparr>,
      upgradeInProgress = \<lparr>active = True, target = Some 1, progress = Some 10, woodRequired = Some 12\<rparr>\<rparr>
     StartUpgrade = ValidationError [Str ''An upgrade is already in progress''] \<and>
   upgradeInProgress (applyAction defaultState StartUpgrade) =
     \<lparr>active = True, target = Some 1, progress = Some 0, woodRequired = Some 12\<rparr> \<and>
   fst (fst (applyQueuedActions
     (snd (enqueueAction \<lparr>kind = StartUpgrade, requestedBy = Some ''Overseer'', commandId = None\<rparr>
        (newGameEngine None))))) =
     [\<lparr>applied_kind = StartUpgrade, requested_by = Some ''Overseer'', command_id = None\<rparr>] \<and>
   active (upgradeInProgress (state (tick
     (snd (enqueueAction \<lparr>kind = StartUpgrade, requestedBy = Some ''Overseer'', commandId = None\<rparr>
        (newGameEngine None)))))) \<and>
   castleLevel (state (tick
     \<lparr>state =
        \<lparr>turn = 3, gold = 40, food = 9, wood = 5, workers = 5, castleLevel = 0,
         jobs = \<lparr>miners = 1, farmers = 1, lumberjacks = 0, builders = 3\<rparr>,
         upgradeInProgress = \<lparr>active = True, target = Some 1, progress = Some 10, woodRequired = Some 12\<rparr>\<rparr>,
      actionQueue = [\<lparr>kind = StartUpgrade, requestedBy = None, commandId = None, queuedAtTurn = 3\<rparr>]\<rparr>)) = 1 \<and>
   fst (applyQueuedActions
     \<lparr>state =
        \<lparr>turn = 3, gold = 40, food = 9, wood = 5, workers = 5, castleLevel = 0,
         jobs = \<lparr>miners = 1, farmers = 1, lumberjacks = 0, builders = 3\<rparr>,
         upgradeInProgress = \<lparr>active = True, target = Some 1, progress = Some 10, woodRequired = Some 12\<rparr>\<rparr>,
      actionQueue = [\<lparr>kind = StartUpgrade, requestedBy = None, commandId = None, queuedAtTurn = 3\<rparr>]\<rparr>) =
     ([], [[Str ''Action '', Str ''StartUpgrade'', Str '' rejected: '',
            Str ''An upgrade is already in progress'']])"
proof -
  let ?s = "\<lparr>turn = 3, gold = 40, food = 9, wood = 5, workers = 5, castleLevel = 0,
      jobs = \<lparr>miners = 1, farmers = 1, lumberjacks = 0, builders = 3\<rparr>,
      upgradeInProgress = \<lparr>active = True, target = Some 1, progress = Some 10, woodRequired = Some 12\<rparr>\<rparr>"
  let ?a = "\<lparr>kind = StartUpgrade, requestedBy = None, commandId = None, queuedAtTurn = 3\<rparr>"
  let ?e = "\<lparr>state = ?s, actionQueue = [?a]\<rparr>"
  let ?f = "snd (enqueueAction \<lparr>kind = StartUpgrade, requestedBy = Some ''Overseer'', commandId = None\<rparr>
        (newGameEngine None))"
  have f: "?f = \<lparr>state = defaultState,
      actionQueue = [\<lparr>kind = StartUpgrade, requestedBy = Some ''Overseer'', commandId = None,
        queuedAtTurn = 0\<rparr>]\<rparr>"
    by (simp add: enqueueAction_def validateActionParams_def newGameEngine_def defaultState_def Let_def)
  have fa: "fst (fst (applyQueuedActions ?f)) =
      [\<lparr>applied_kind = StartUpgrade, requested_by = Some ''Overseer'', command_id = None\<rparr>]"
    unfolding f
    by (simp add: applyQueuedActions_def sortActionQueue_def defaultState_def action_defs
        inactiveUpgrade_def Let_def)
  have ft: "active (upgradeInProgress (state (tick ?f)))"
    unfolding f
    by (simp add: upgrade_tick applyQueuedActions_def sortActionQueue_def defaultState_def action_defs
        inactiveUpgrade_def Let_def applyProduction_def applyConstruction_cases constructionLoop_done
        upgradeComplete_def)
  let ?sp = "\<lparr>turn = 4, gold = 42, food = 12, wood = 5, workers = 5, castleLevel = 0,
      jobs = \<lparr>miners = 1, farmers = 1, lumberjacks = 0, builders = 3\<rparr>,
      upgradeInProgress = \<lparr>active = True, target = Some 1, progress = Some 10, woodRequired = Some 12\<rparr>\<rparr>"
  have loop: "constructionLoop 0 ?sp =
      \<lparr>turn = 4, gold = 42, food = 12, wood = 2, workers = 5, castleLevel = 0,
       jobs = \<lparr>miners = 1, farmers = 1, lumberjacks = 0, builders = 3\<rparr>,
       upgradeInProgress = \<lparr>active = True, target = Some 1, progress = Some 13, woodRequired = Some 12\<rparr>\<rparr>"
    using constructionLoop_closed [of ?sp 3 5 10] by simp
  have ea: "applyQueuedActions ?e =
      (([], [[Str ''Action '', Str ''StartUpgrade'', Str '' rejected: '',
            Str ''An upgrade is already in progress'']]), \<lparr>state = ?s, actionQueue = []\<rparr>)"
    by (simp add: applyQueuedActions_def sortActionQueue_def action_defs Let_def)
  have et: "\<not> active (upgradeInProgress (state (tick ?e)))"
    by (simp add: upgrade_tick ea applyConstruction_cases applyProduction_def Let_def loop
        upgradeComplete_def inactiveUpgrade_def)
  have c1: "validateActionAtApplyTime ?s StartUpgrade =
      ValidationError [Str ''An upgrade is already in progress'']"
    using C5_upgrade_transitions [where s = ?s, THEN conjunct1] by simp
  have c2: "upgradeInProgress (applyAction defaultState StartUpgrade) =
      \<lparr>active = True, target = Some 1, progress = Some 0, woodRequired = Some 12\<rparr>"
    using C5_upgrade_transitions [where s = defaultState, THEN conjunct2, THEN conjunct1]
    by (simp add: defaultState_def inactiveUpgrade_def validateActionAtApplyTime_def Let_def)
  have c12: "castleLevel (state (tick ?e)) = 1"
    using et C5_upgrade_transitions [where e = ?e, THEN conjunct2, THEN conjunct2, THEN conjunct2,
        THEN conjunct2, THEN conjunct2, THEN conjunct2, THEN conjunct2, THEN conjunct2,
        THEN conjunct2, THEN conjunct2, THEN conjunct2]
    by simp
  have c10: "upgradeInProgress (state (snd (applyQueuedActions ?e))) = upgradeInProgress ?s"
    using C5_upgrade_transitions [where e = ?e, THEN conjunct2, THEN conjunct2, THEN conjunct2,
        THEN conjunct2, THEN conjunct2, THEN conjunct2, THEN conjunct2, THEN conjunct2,
        THEN conjunct2, THEN conjunct1]
    by simp
  have c11: "\<exists>x \<in> set (fst (fst (applyQueuedActions ?f))). applied_kind x = StartUpgrade"
    using ft C5_upgrade_transitions [where e = ?f, THEN conjunct2, THEN conjunct2, THEN conjunct2,
        THEN conjunct2, THEN conjunct2, THEN conjunct2, THEN conjunct2, THEN conjunct2,
        THEN conjunct2, THEN conjunct2, THEN conjunct1]
    unfolding f by (simp add: defaultState_def inactiveUpgrade_def)
  show ?thesis
    using c1 c2 c10 c11 c12 fa ft ea by simp
qed

subsection \<open>Rejected actions\<close>

lemma errors_applyLoop:
  "snd (snd (applyLoop l s ap er)) = er @ rejections s l"
  by (induction l arbitrary: s ap er) (auto split: ValidationResult.splits)


lemma errors_applyQueuedActions:
  "snd (fst (applyQueuedActions e)) = rejections (state e) (sortActionQueue (actionQueue e))"
  by (simp add: applyQueuedActions_def Let_def split_beta errors_applyLoop)






subsection \<open>The order of application\<close>




end
